theory Spec2Isabelle
  imports Main "HOL-Library.Sublist"
begin

section \<open>Strings of the host language\<close>

text \<open>
  File names and MIME types are strings; they are modelled as \<open>char list\<close>.
  \<open>String.prototype.toLowerCase\<close> is modelled on the ASCII letters \<open>A\<close>--\<open>Z\<close>,
  every other character is kept. All strings the sources compare against
  (extensions, MIME types, SOP class UIDs) are ASCII.
\<close>

definition toLowerCaseChar :: "char \<Rightarrow> char" where
  "toLowerCaseChar c =
     (case map_of (zip ''ABCDEFGHIJKLMNOPQRSTUVWXYZ'' ''abcdefghijklmnopqrstuvwxyz'') c of
        Some l \<Rightarrow> l
      | None \<Rightarrow> c)"

definition toLowerCase :: "string \<Rightarrow> string" where
  "toLowerCase s = map toLowerCaseChar s"

text \<open>\<open>s.endsWith(suf)\<close>: the last \<open>length suf\<close> characters of \<open>s\<close> are \<open>suf\<close>.\<close>

definition endsWith :: "string \<Rightarrow> string \<Rightarrow> bool" where
  "endsWith s suf = (length suf \<le> length s \<and> drop (length s - length suf) s = suf)"

text \<open>\<open>s.includes(sub)\<close> (named \<open>includes_str\<close> here): \<open>sub\<close> starts at some position of \<open>s\<close>.\<close>

fun includes_str :: "string \<Rightarrow> string \<Rightarrow> bool" where
  "includes_str [] sub = (sub = [])"
| "includes_str (c # cs) sub = (take (length sub) (c # cs) = sub \<or> includes_str cs sub)"

section \<open>FileHandler\<close>

text \<open>The three properties of a browser \<open>File\<close> that the handler reads.\<close>

record File =
  name :: string
  type_f :: string
  size_f :: nat

subsection \<open>Detection by extension and MIME type\<close>

definition isDicomFile :: "File \<Rightarrow> bool" where
  "isDicomFile f =
     (endsWith (toLowerCase (name f)) ''.dcm'' \<or> type_f f = ''application/dicom'')"

definition videoExtensions :: "string list" where
  "videoExtensions = [''.mp4'', ''.avi'', ''.mov'', ''.wmv'', ''.flv'', ''.webm'', ''.mpeg'', ''.mpg'']"

definition videoMimeTypes :: "string list" where
  "videoMimeTypes = [''video/mp4'', ''video/avi'', ''video/quicktime'', ''video/x-ms-wmv'']"

definition isVideoFile :: "File \<Rightarrow> bool" where
  "isVideoFile f =
     (list_ex (\<lambda>t. includes_str (type_f f) t) videoMimeTypes \<or>
      list_ex (\<lambda>ext. endsWith (toLowerCase (name f)) ext) videoExtensions)"

definition imageExtensions :: "string list" where
  "imageExtensions = [''.jpg'', ''.jpeg'', ''.png'', ''.gif'', ''.bmp'', ''.tiff'']"

definition imageMimeTypes :: "string list" where
  "imageMimeTypes = [''image/jpeg'', ''image/png'', ''image/gif'', ''image/bmp'', ''image/tiff'']"

definition isImageFile :: "File \<Rightarrow> bool" where
  "isImageFile f =
     (list_ex (\<lambda>t. includes_str (type_f f) t) imageMimeTypes \<or>
      list_ex (\<lambda>ext. endsWith (toLowerCase (name f)) ext) imageExtensions)"

subsection \<open>Human-readable size and validation\<close>

text \<open>
  Decimal digits of a non-negative integer, as a template literal or
  \<open>Number.prototype.toString\<close> prints it.
\<close>

fun toString_nat :: "nat \<Rightarrow> string" where
  "toString_nat n =
     (if n < 10 then [''0123456789'' ! n]
      else toString_nat (n div 10) @ [''0123456789'' ! (n mod 10)])"

declare toString_nat.simps [simp del]

text \<open>
  \<open>(a / b).toFixed(1)\<close> for a byte count \<open>a\<close> and \<open>b\<close> a power of two. The
  quotient is exact in binary floating point, and \<open>toFixed(1)\<close> picks the integer
  \<open>n\<close> with \<open>n / 10\<close> nearest to it (the larger one on a tie), that is the floor of
  \<open>10 a / b + 1/2\<close>, and prints \<open>n div 10\<close>, a point and the last digit.
  Byte counts are below \<open>2^53\<close>, far from where \<open>toFixed\<close> changes notation.
\<close>

definition toFixed1 :: "nat \<Rightarrow> nat \<Rightarrow> string" where
  "toFixed1 a b =
     (let n = (20 * a + b) div (2 * b)
      in toString_nat (n div 10) @ ''.'' @ toString_nat (n mod 10))"

definition getFileSize :: "File \<Rightarrow> string" where
  "getFileSize f =
     (let size = size_f f in
      if size < 1024 then toString_nat size @ '' B''
      else if size < 1024 * 1024 then toFixed1 size 1024 @ '' KB''
      else toFixed1 size (1024 * 1024) @ '' MB'')"

record ValidationResult =
  isValid :: bool
  errors :: "string list"

definition validateFile :: "File \<Rightarrow> ValidationResult" where
  "validateFile f =
     (let errors0 = [];
          maxSize = 200 * 1024 * 1024;
          errors1 = (if size_f f > maxSize
                     then errors0 @ [''File too large ('' @ getFileSize f @ '' > 200MB)'']
                     else errors0);
          errors2 = (if size_f f = 0 then errors1 @ [''File is empty''] else errors1)
      in \<lparr>isValid = (length errors2 = 0), errors = errors2\<rparr>)"

section \<open>Exceptions and the external collaborator\<close>

text \<open>
  A thrown value carries its message. A computation that may throw (or a promise that
  may reject) has a result of type \<open>error + 'a\<close>, with \<open>Inl\<close> for the thrown value.
\<close>

datatype error = Error (message: string)

definition and_then :: "error + 'a \<Rightarrow> ('a \<Rightarrow> error + 'b) \<Rightarrow> error + 'b" where
  "and_then m k = (case m of Inl e \<Rightarrow> Inl e | Inr v \<Rightarrow> k v)"

definition try_catch :: "error + 'a \<Rightarrow> (error \<Rightarrow> error + 'a) \<Rightarrow> error + 'a" where
  "try_catch body handler = (case body of Inl e \<Rightarrow> handler e | Inr v \<Rightarrow> Inr v)"

text \<open>
  What the metadata provider hands out for the three keys the probe reads. A module may
  be undefined (\<open>None\<close>), and so may each field of a module that is there.
\<close>

record SopCommonModule =
  sopClassUID :: "string option"

record MultiframeModule =
  numberOfFrames :: "int option"

text \<open>
  The calls that leave the repository: the dynamic import of the player module,
  \<open>dicomImageLoader.wadouri.fileManager.add\<close>, and \<open>metaData.get\<close> at the keys
  \<open>sopCommonModule\<close>, \<open>multiframeModule\<close> and \<open>numberOfFrames\<close>. Each of them may throw.
\<close>

record Collaborator =
  import_VideoPlayer :: "error + unit"
  fileManager_add :: "File \<Rightarrow> error + string"
  metaData_sopCommonModule :: "string \<Rightarrow> error + SopCommonModule option"
  metaData_multiframeModule :: "string \<Rightarrow> error + MultiframeModule option"
  metaData_numberOfFrames :: "string \<Rightarrow> error + int option"

section \<open>VideoPlayer: the DICOM probe\<close>

definition fileToImageId :: "Collaborator \<Rightarrow> File \<Rightarrow> error + string" where
  "fileToImageId env f = fileManager_add env f"

text \<open>
  \<open>v || rest\<close> for a number-or-undefined \<open>v\<close>: undefined and \<open>0\<close> are falsy, and
  \<open>rest\<close> is evaluated (and may throw) only then.
\<close>

definition or_else :: "int option \<Rightarrow> error + int \<Rightarrow> error + int" where
  "or_else v rest = (case v of None \<Rightarrow> rest | Some n \<Rightarrow> (if n = 0 then rest else Inr n))"

record DicomProbe =
  probe_sopClassUID :: string
  probe_numberOfFrames :: int

text \<open>
  The reads of \<open>isDicomVideo\<close>, in the order of the source: the SOP common module, the
  multi-frame module, the frame count with its two fallbacks, and the SOP class UID with
  its fallback to the empty string.
\<close>

definition readProbe :: "Collaborator \<Rightarrow> string \<Rightarrow> error + DicomProbe" where
  "readProbe env imageId =
     and_then (metaData_sopCommonModule env imageId) (\<lambda>sopCommonModule.
     and_then (metaData_multiframeModule env imageId) (\<lambda>multiframeModule.
     and_then
       (or_else (case multiframeModule of None \<Rightarrow> None | Some m \<Rightarrow> numberOfFrames m)
          (and_then (metaData_numberOfFrames env imageId) (\<lambda>direct.
             or_else direct (Inr 1))))
       (\<lambda>frames.
          Inr \<lparr>probe_sopClassUID =
                 (case sopCommonModule of None \<Rightarrow> []
                  | Some m \<Rightarrow> (case sopClassUID m of None \<Rightarrow> [] | Some uid \<Rightarrow> uid)),
               probe_numberOfFrames = frames\<rparr>)))"

definition videoSopClasses :: "string list" where
  "videoSopClasses =
     [''1.2.840.10008.5.1.4.1.1.77.1.1.1'',
      ''1.2.840.10008.5.1.4.1.1.77.1.2.1'',
      ''1.2.840.10008.5.1.4.1.1.77.1.4.1'',
      ''1.2.840.10008.5.1.4.1.1.181.1'',
      ''1.2.840.10008.5.1.4.1.1.6.2'',
      ''1.2.840.10008.5.1.4.1.1.3.1'',
      ''1.2.840.10008.5.1.4.1.1.12.1'',
      ''1.2.840.10008.5.1.4.1.1.12.2'']"

definition isDicomVideo :: "Collaborator \<Rightarrow> string \<Rightarrow> error + bool" where
  "isDicomVideo env imageId =
     try_catch
       (and_then (readProbe env imageId) (\<lambda>p.
          Inr (probe_sopClassUID p \<in> set videoSopClasses \<or> probe_numberOfFrames p > 1)))
       (\<lambda>error. Inr False)"

section \<open>FileHandler: the classifier\<close>

datatype FileType = DicomVideo | RegularVideo | DicomImage | RegularImage | Unknown

definition getDetailedFileType :: "Collaborator \<Rightarrow> File \<Rightarrow> error + FileType" where
  "getDetailedFileType env f =
     (if isDicomFile f then
        try_catch
          (and_then (import_VideoPlayer env) (\<lambda>_.
           and_then (fileToImageId env f) (\<lambda>imageId.
           and_then (isDicomVideo env imageId) (\<lambda>isVideo.
             Inr (if isVideo then DicomVideo else DicomImage)))))
          (\<lambda>error. Inr DicomImage)
      else if isVideoFile f then Inr RegularVideo
      else if isImageFile f then Inr RegularImage
      else Inr Unknown)"

text \<open>
  The probe as the classifier sees it: the player module is imported, the file is
  registered, and the metadata is read at the locator that registration returned.
\<close>

definition dicomProbe :: "Collaborator \<Rightarrow> File \<Rightarrow> error + DicomProbe" where
  "dicomProbe env f =
     and_then (import_VideoPlayer env) (\<lambda>_.
     and_then (fileToImageId env f) (\<lambda>imageId. readProbe env imageId))"

section \<open>App: the upload handlers\<close>

text \<open>
  The component state of \<open>App\<close>, and the files whose classification has been requested by
  a handler that is suspended at its \<open>await\<close>. A handler runs to its \<open>await\<close> without
  interruption, and its continuation runs without interruption when the promise settles;
  other events may come in between.
\<close>

record AppState =
  file_st :: "File option"
  fileType :: FileType
  validationError :: string
  isLoading :: bool
  pending :: "File list"

definition initialState :: AppState where
  "initialState =
     \<lparr>file_st = None, fileType = Unknown, validationError = [], isLoading = False, pending = []\<rparr>"

text \<open>\<open>errors.join(', ')\<close>\<close>

fun join_comma :: "string list \<Rightarrow> string" where
  "join_comma [] = []"
| "join_comma [x] = x"
| "join_comma (x # y # ys) = x @ '', '' @ join_comma (y # ys)"

text \<open>
  \<open>handleUpload\<close> up to its \<open>await\<close>: the three setters reset the state, a missing file
  ends the handler, a validation error is shown, and otherwise the classification of the
  file is requested.
\<close>

definition handleUpload :: "AppState \<Rightarrow> File option \<Rightarrow> AppState" where
  "handleUpload s uploadedFile =
     (let s1 = s\<lparr>file_st := None, fileType := Unknown, validationError := []\<rparr> in
      case uploadedFile of
        None \<Rightarrow> s1
      | Some f \<Rightarrow>
          (let validation = validateFile f in
           if \<not> isValid validation
           then s1\<lparr>validationError := join_comma (errors validation)\<rparr>
           else s1\<lparr>isLoading := True, pending := pending s1 @ [f]\<rparr>))"

text \<open>\<open>handleDrop\<close> up to its \<open>await\<close>: as \<open>handleUpload\<close>, without the reset.\<close>

definition handleDrop :: "AppState \<Rightarrow> File option \<Rightarrow> AppState" where
  "handleDrop s droppedFile =
     (case droppedFile of
        None \<Rightarrow> s
      | Some f \<Rightarrow>
          (let validation = validateFile f in
           if \<not> isValid validation
           then s\<lparr>validationError := join_comma (errors validation)\<rparr>
           else s\<lparr>isLoading := True, pending := pending s @ [f]\<rparr>))"

definition clearFile :: "AppState \<Rightarrow> AppState" where
  "clearFile s = s\<lparr>file_st := None, fileType := Unknown, validationError := []\<rparr>"

text \<open>
  The continuation after the \<open>await\<close>, the same in both handlers: on a result the file
  type and then the file are set, on a rejection the message is shown, and in both cases
  the loading flag is cleared.
\<close>

definition afterAwait :: "AppState \<Rightarrow> File \<Rightarrow> error + FileType \<Rightarrow> AppState" where
  "afterAwait s f outcome =
     (case outcome of
        Inr t \<Rightarrow> s\<lparr>fileType := t, file_st := Some f, isLoading := False\<rparr>
      | Inl e \<Rightarrow>
          s\<lparr>validationError := ''Error processing file: '' @ message e, isLoading := False\<rparr>)"

text \<open>
  The events of the component: the two handlers, the Remove button, and the settling of
  the classification requested for the \<open>i\<close>-th suspended handler.
\<close>

datatype Event = Upload "File option" | Drop "File option" | Clear | Settle nat

definition step :: "Collaborator \<Rightarrow> AppState \<Rightarrow> Event \<Rightarrow> AppState" where
  "step env s ev =
     (case ev of
        Upload uploadedFile \<Rightarrow> handleUpload s uploadedFile
      | Drop droppedFile \<Rightarrow> handleDrop s droppedFile
      | Clear \<Rightarrow> clearFile s
      | Settle i \<Rightarrow>
          (if i < length (pending s)
           then afterAwait (s\<lparr>pending := take i (pending s) @ drop (Suc i) (pending s)\<rparr>)
                  (pending s ! i) (getDetailedFileType env (pending s ! i))
           else s))"

definition run :: "Collaborator \<Rightarrow> AppState \<Rightarrow> Event list \<Rightarrow> AppState" where
  "run env s evs = foldl (step env) s evs"

text \<open>The displayed file type belongs to the displayed file.\<close>

definition typeMatchesFile :: "Collaborator \<Rightarrow> AppState \<Rightarrow> bool" where
  "typeMatchesFile env s =
     (case file_st s of
        None \<Rightarrow> fileType s = Unknown
      | Some f \<Rightarrow> getDetailedFileType env f = Inr (fileType s))"

section \<open>Example inputs\<close>

text \<open>
  A collaborator that registers every file and has no metadata for any locator, one whose
  registration throws, one whose metadata provider throws, and one that reports five
  frames and a SOP class outside the video list (CT Image Storage).
\<close>

definition noMetadata :: Collaborator where
  "noMetadata =
     \<lparr>import_VideoPlayer = Inr (),
      fileManager_add = (\<lambda>f. Inr ''dicomfile:0''),
      metaData_sopCommonModule = (\<lambda>imageId. Inr None),
      metaData_multiframeModule = (\<lambda>imageId. Inr None),
      metaData_numberOfFrames = (\<lambda>imageId. Inr None)\<rparr>"

definition registrationThrows :: Collaborator where
  "registrationThrows = noMetadata\<lparr>fileManager_add := (\<lambda>f. Inl (Error ''cannot add file''))\<rparr>"

definition probeThrows :: Collaborator where
  "probeThrows =
     noMetadata\<lparr>metaData_sopCommonModule := (\<lambda>imageId. Inl (Error ''no provider''))\<rparr>"

definition fiveFrames :: Collaborator where
  "fiveFrames =
     noMetadata
       \<lparr>metaData_sopCommonModule :=
          (\<lambda>imageId. Inr (Some \<lparr>sopClassUID = Some ''1.2.840.10008.5.1.4.1.1.2''\<rparr>)),
        metaData_multiframeModule :=
          (\<lambda>imageId. Inr (Some \<lparr>numberOfFrames = Some 5\<rparr>))\<rparr>"

definition zeroFrames :: Collaborator where
  "zeroFrames =
     noMetadata
       \<lparr>metaData_multiframeModule := (\<lambda>imageId. Inr (Some \<lparr>numberOfFrames = Some 0\<rparr>)),
        metaData_numberOfFrames := (\<lambda>imageId. Inr (Some 0))\<rparr>"

definition mkFile :: "string \<Rightarrow> string \<Rightarrow> nat \<Rightarrow> File" where
  "mkFile n t sz = \<lparr>name = n, type_f = t, size_f = sz\<rparr>"

section \<open>Facts about the string operations\<close>

lemmas str_defs = endsWith_def toLowerCase_def toLowerCaseChar_def

lemmas det_defs = isDicomFile_def isVideoFile_def isImageFile_def videoMimeTypes_def
  imageMimeTypes_def videoExtensions_def imageExtensions_def mkFile_def

lemmas probe_defs = fileToImageId_def isDicomVideo_def readProbe_def dicomProbe_def and_then_def
  try_catch_def or_else_def

lemma endsWith_suffix: "endsWith s suf = suffix suf s"
proof
  assume "endsWith s suf"
  then have "s = take (length s - length suf) s @ suf"
    by (metis append_take_drop_id endsWith_def)
  then show "suffix suf s" by (rule suffixI)
next
  assume "suffix suf s"
  then obtain p where "s = p @ suf" by (auto simp: suffix_def)
  then show "endsWith s suf" by (simp add: endsWith_def)
qed

lemma includes_sublist: "includes_str s sub = sublist sub s"
proof (induction s)
  case Nil
  then show ?case by auto
next
  case (Cons c cs)
  have "take (length sub) (c # cs) = sub \<longleftrightarrow> prefix sub (c # cs)"
    by (metis append_eq_conv_conj prefix_def)
  with Cons show ?case
    by (cases sub) (auto simp: sublist_Cons_right)
qed

lemma toLowerCaseChar_dot: "toLowerCaseChar c = CHR ''.'' \<longleftrightarrow> c = CHR ''.''"
  by (auto simp: toLowerCaseChar_def split: if_splits)

lemma toLowerCaseChar_d: "toLowerCaseChar c = CHR ''d'' \<longleftrightarrow> c \<in> {CHR ''d'', CHR ''D''}"
  by (auto simp: toLowerCaseChar_def split: if_splits)

lemma toLowerCaseChar_c: "toLowerCaseChar c = CHR ''c'' \<longleftrightarrow> c \<in> {CHR ''c'', CHR ''C''}"
  by (auto simp: toLowerCaseChar_def split: if_splits)

lemma toLowerCaseChar_m: "toLowerCaseChar c = CHR ''m'' \<longleftrightarrow> c \<in> {CHR ''m'', CHR ''M''}"
  by (auto simp: toLowerCaseChar_def split: if_splits)

text \<open>
  A name ends with \<open>.dcm\<close> after lowering exactly when its last four characters are a
  point and the letters d, c, m, each in either case.
\<close>

lemma endsWith_dcm:
  "endsWith (toLowerCase s) ''.dcm'' \<longleftrightarrow>
     (\<exists>p c1 c2 c3. s = p @ [CHR ''.'', c1, c2, c3] \<and> c1 \<in> {CHR ''d'', CHR ''D''} \<and>
        c2 \<in> {CHR ''c'', CHR ''C''} \<and> c3 \<in> {CHR ''m'', CHR ''M''})"
  (is "?L \<longleftrightarrow> ?R")
proof
  assume ?L
  then obtain q where "map toLowerCaseChar s = q @ ''.dcm''"
    by (auto simp: endsWith_suffix suffix_def toLowerCase_def)
  then obtain p e where s: "s = p @ e" and e: "map toLowerCaseChar e = ''.dcm''"
    by (auto simp: map_eq_append_conv)
  from e obtain c0 c1 c2 c3 where e': "e = [c0, c1, c2, c3]"
    and c: "toLowerCaseChar c0 = CHR ''.''" "toLowerCaseChar c1 = CHR ''d''"
      "toLowerCaseChar c2 = CHR ''c''" "toLowerCaseChar c3 = CHR ''m''"
    by (auto simp: map_eq_Cons_conv)
  from c have "c0 = CHR ''.''" "c1 \<in> {CHR ''d'', CHR ''D''}" "c2 \<in> {CHR ''c'', CHR ''C''}"
    "c3 \<in> {CHR ''m'', CHR ''M''}"
    by (simp_all only: toLowerCaseChar_dot toLowerCaseChar_d toLowerCaseChar_c toLowerCaseChar_m)
  with s e' show ?R by blast
next
  assume ?R
  then obtain p c1 c2 c3 where s: "s = p @ [CHR ''.'', c1, c2, c3]"
    and c: "c1 \<in> {CHR ''d'', CHR ''D''}" "c2 \<in> {CHR ''c'', CHR ''C''}" "c3 \<in> {CHR ''m'', CHR ''M''}"
    by blast
  from c have "toLowerCaseChar c1 = CHR ''d''" "toLowerCaseChar c2 = CHR ''c''"
    "toLowerCaseChar c3 = CHR ''m''"
    by (simp_all only: toLowerCaseChar_d toLowerCaseChar_c toLowerCaseChar_m)
  moreover have "toLowerCaseChar CHR ''.'' = CHR ''.''" by (simp add: toLowerCaseChar_dot)
  ultimately have "toLowerCase s = toLowerCase p @ ''.dcm''"
    using s by (simp add: toLowerCase_def)
  then show ?L unfolding endsWith_suffix by (rule suffixI)
qed

section \<open>Facts about the probe and the classifier\<close>

text \<open>On a DICOM candidate the classifier is a function of the probe alone.\<close>

lemma getDetailedFileType_dicom:
  "isDicomFile f \<Longrightarrow>
   getDetailedFileType env f =
     (case dicomProbe env f of
        Inl e \<Rightarrow> Inr DicomImage
      | Inr p \<Rightarrow> Inr (if probe_sopClassUID p \<in> set videoSopClasses \<or> 1 < probe_numberOfFrames p
                      then DicomVideo else DicomImage))"
  by (auto simp: getDetailedFileType_def dicomProbe_def isDicomVideo_def and_then_def try_catch_def
      split: sum.splits)

lemma getDetailedFileType_not_dicom:
  "\<not> isDicomFile f \<Longrightarrow>
   getDetailedFileType env f =
     Inr (if isVideoFile f then RegularVideo else if isImageFile f then RegularImage else Unknown)"
  by (simp add: getDetailedFileType_def)

lemma getDetailedFileType_total: "\<exists>t. getDetailedFileType env f = Inr t"
  by (simp add: getDetailedFileType_def and_then_def try_catch_def split: sum.splits)

lemma isDicomVideo_total: "\<exists>b. isDicomVideo env imageId = Inr b"
  by (auto simp: isDicomVideo_def and_then_def try_catch_def split: sum.splits)

lemma set_videoSopClasses:
  "set videoSopClasses =
     {''1.2.840.10008.5.1.4.1.1.77.1.1.1'', ''1.2.840.10008.5.1.4.1.1.77.1.2.1'',
      ''1.2.840.10008.5.1.4.1.1.77.1.4.1'', ''1.2.840.10008.5.1.4.1.1.181.1'',
      ''1.2.840.10008.5.1.4.1.1.6.2'', ''1.2.840.10008.5.1.4.1.1.3.1'',
      ''1.2.840.10008.5.1.4.1.1.12.1'', ''1.2.840.10008.5.1.4.1.1.12.2''}"
  by (simp add: videoSopClasses_def)

lemma videoSopClasses_eight: "distinct videoSopClasses \<and> length videoSopClasses = 8"
  by (simp add: videoSopClasses_def)

text \<open>
  The probe throws exactly when a read that is reached throws: the SOP common module, the
  multi-frame module, or the direct frame count when the module's frame count is falsy.
\<close>

lemma readProbe_throws:
  "(\<exists>e. readProbe env imageId = Inl e) \<longleftrightarrow>
     ((\<exists>e. metaData_sopCommonModule env imageId = Inl e) \<or>
      (\<exists>e. metaData_multiframeModule env imageId = Inl e) \<or>
      ((\<exists>e. metaData_numberOfFrames env imageId = Inl e) \<and>
       (\<exists>m. metaData_multiframeModule env imageId = Inr m \<and>
            (case m of None \<Rightarrow> None | Some mm \<Rightarrow> numberOfFrames mm) \<in> {None, Some 0})))"
  by (auto simp: readProbe_def and_then_def or_else_def split: sum.splits option.splits if_splits)

lemma dicomProbe_fiveFrames:
  "dicomProbe fiveFrames f =
     Inr \<lparr>probe_sopClassUID = ''1.2.840.10008.5.1.4.1.1.2'', probe_numberOfFrames = 5\<rparr>"
  by (simp add: fiveFrames_def noMetadata_def probe_defs)

lemma dicomProbe_noMetadata:
  "dicomProbe noMetadata f = Inr \<lparr>probe_sopClassUID = [], probe_numberOfFrames = 1\<rparr>"
  by (simp add: noMetadata_def probe_defs)

lemma dicomProbe_zeroFrames:
  "dicomProbe zeroFrames f = Inr \<lparr>probe_sopClassUID = [], probe_numberOfFrames = 1\<rparr>"
  by (simp add: zeroFrames_def noMetadata_def probe_defs)

section \<open>The DICOM branch of the classifier\<close>

text \<open>
  C1. A DICOM candidate classifies as \<open>dicom-video\<close> if and only if the probe returned and
  its SOP class UID is one of the eight video SOP classes or its frame count is greater
  than 1; in every other case it classifies as \<open>dicom-image\<close>. A frame count of 5 is enough
  whatever the SOP class.
\<close>

theorem dicom_video_decision:
  assumes "isDicomFile f"
  shows "(getDetailedFileType env f = Inr DicomVideo \<longleftrightarrow>
            (\<exists>p. dicomProbe env f = Inr p \<and>
                 (probe_sopClassUID p \<in>
                    {''1.2.840.10008.5.1.4.1.1.77.1.1.1'', ''1.2.840.10008.5.1.4.1.1.77.1.2.1'',
                     ''1.2.840.10008.5.1.4.1.1.77.1.4.1'', ''1.2.840.10008.5.1.4.1.1.181.1'',
                     ''1.2.840.10008.5.1.4.1.1.6.2'', ''1.2.840.10008.5.1.4.1.1.3.1'',
                     ''1.2.840.10008.5.1.4.1.1.12.1'', ''1.2.840.10008.5.1.4.1.1.12.2''}
                  \<or> probe_numberOfFrames p > 1)))
       \<and> (getDetailedFileType env f \<noteq> Inr DicomVideo \<longleftrightarrow>
            getDetailedFileType env f = Inr DicomImage)
       \<and> ((\<exists>p. dicomProbe env f = Inr p \<and> probe_numberOfFrames p = 5) \<longrightarrow>
            getDetailedFileType env f = Inr DicomVideo)"
  unfolding set_videoSopClasses [symmetric]
  using assms by (auto simp: getDetailedFileType_dicom split: sum.splits)

theorem dicom_video_decision_witness:
  "isDicomFile (mkFile ''scan.dcm'' [] 4096) \<and>
   dicomProbe fiveFrames (mkFile ''scan.dcm'' [] 4096) =
     Inr \<lparr>probe_sopClassUID = ''1.2.840.10008.5.1.4.1.1.2'', probe_numberOfFrames = 5\<rparr> \<and>
   ''1.2.840.10008.5.1.4.1.1.2'' \<notin> set videoSopClasses \<and>
   getDetailedFileType fiveFrames (mkFile ''scan.dcm'' [] 4096) = Inr DicomVideo"
proof -
  have d: "isDicomFile (mkFile ''scan.dcm'' [] 4096)"
    by (simp add: isDicomFile_def mkFile_def str_defs)
  have "''1.2.840.10008.5.1.4.1.1.2'' \<notin> set videoSopClasses"
    by (simp add: videoSopClasses_def)
  with d show ?thesis
    using dicom_video_decision [OF d, of fiveFrames] by (simp add: dicomProbe_fiveFrames)
qed

text \<open>
  C2. When the metadata probe of a DICOM candidate throws, \<open>isDicomVideo\<close> recovers and
  answers false, and the classifier returns \<open>dicom-image\<close> as a normal result: no error
  reaches the caller.
\<close>

theorem probe_failure_fails_open:
  assumes "isDicomFile f"
    and "fileToImageId env f = Inr imageId"
    and "readProbe env imageId = Inl e"
  shows "isDicomVideo env imageId = Inr False \<and> getDetailedFileType env f = Inr DicomImage"
  using assms
  by (simp add: getDetailedFileType_def isDicomVideo_def and_then_def try_catch_def
      split: sum.splits)

theorem probe_failure_fails_open_witness:
  "isDicomFile (mkFile ''File.Dcm'' [] 4096) \<and>
   fileToImageId probeThrows (mkFile ''File.Dcm'' [] 4096) = Inr ''dicomfile:0'' \<and>
   readProbe probeThrows ''dicomfile:0'' = Inl (Error ''no provider'') \<and>
   getDetailedFileType probeThrows (mkFile ''File.Dcm'' [] 4096) = Inr DicomImage"
proof -
  have d: "isDicomFile (mkFile ''File.Dcm'' [] 4096)"
    by (simp add: isDicomFile_def mkFile_def str_defs)
  have r: "fileToImageId probeThrows (mkFile ''File.Dcm'' [] 4096) = Inr ''dicomfile:0''"
    by (simp add: probeThrows_def noMetadata_def fileToImageId_def)
  have p: "readProbe probeThrows ''dicomfile:0'' = Inl (Error ''no provider'')"
    by (simp add: probeThrows_def noMetadata_def readProbe_def and_then_def)
  from probe_failure_fails_open [OF d r p] d r p show ?thesis by simp
qed

text \<open>
  C9. The classifier always returns one of the five tags, whatever the collaborator does;
  when registering a DICOM candidate throws, the tag is \<open>dicom-image\<close>.
\<close>

theorem classification_total:
  "(\<exists>t. getDetailedFileType env f = Inr t \<and>
        t \<in> {DicomVideo, DicomImage, RegularVideo, RegularImage, Unknown}) \<and>
   (isDicomFile f \<and> fileToImageId env f = Inl e \<longrightarrow> getDetailedFileType env f = Inr DicomImage)"
proof
  obtain t where "getDetailedFileType env f = Inr t"
    using getDetailedFileType_total by blast
  moreover have "t \<in> {DicomVideo, DicomImage, RegularVideo, RegularImage, Unknown}"
    by (cases t) simp_all
  ultimately show "\<exists>t. getDetailedFileType env f = Inr t \<and>
        t \<in> {DicomVideo, DicomImage, RegularVideo, RegularImage, Unknown}" by blast
next
  show "isDicomFile f \<and> fileToImageId env f = Inl e \<longrightarrow> getDetailedFileType env f = Inr DicomImage"
    by (simp add: getDetailedFileType_def and_then_def try_catch_def split: sum.splits)
qed

theorem classification_total_witness:
  "isDicomFile (mkFile ''file.dcm'' [] 4096) \<and>
   fileToImageId registrationThrows (mkFile ''file.dcm'' [] 4096) = Inl (Error ''cannot add file'') \<and>
   getDetailedFileType registrationThrows (mkFile ''file.dcm'' [] 4096) = Inr DicomImage"
proof -
  have d: "isDicomFile (mkFile ''file.dcm'' [] 4096)"
    by (simp add: isDicomFile_def mkFile_def str_defs)
  have r: "fileToImageId registrationThrows (mkFile ''file.dcm'' [] 4096) =
             Inl (Error ''cannot add file'')"
    by (simp add: registrationThrows_def noMetadata_def fileToImageId_def)
  from classification_total [of registrationThrows "mkFile ''file.dcm'' [] 4096"
      "Error ''cannot add file''"] d r
  show ?thesis by simp
qed

text \<open>
  C10. When the frame count of the multi-frame module and the direct frame count are both
  falsy (the module or the value absent, or the value 0), the probed frame count is the
  default 1, and the file classifies as \<open>dicom-image\<close> whenever its SOP class is not a
  video SOP class.
\<close>

theorem falsy_frame_count_defaults:
  assumes "isDicomFile f"
    and "import_VideoPlayer env = Inr ()"
    and "fileToImageId env f = Inr imageId"
    and "metaData_sopCommonModule env imageId = Inr scm"
    and "metaData_multiframeModule env imageId = Inr mfm"
    and "(case mfm of None \<Rightarrow> None | Some m \<Rightarrow> numberOfFrames m) \<in> {None, Some 0}"
    and "metaData_numberOfFrames env imageId = Inr direct"
    and "direct \<in> {None, Some 0}"
  shows "\<exists>p. dicomProbe env f = Inr p \<and> probe_numberOfFrames p = 1 \<and>
             (probe_sopClassUID p \<notin> set videoSopClasses \<longrightarrow>
                getDetailedFileType env f = Inr DicomImage)"
proof -
  have fr: "or_else (case mfm of None \<Rightarrow> None | Some m \<Rightarrow> numberOfFrames m)
              (and_then (Inr direct) (\<lambda>d. or_else d (Inr 1))) = Inr 1"
    using assms(6,8) by (auto simp: or_else_def and_then_def)
  have "\<exists>p. dicomProbe env f = Inr p \<and> probe_numberOfFrames p = 1"
    using assms(2-5,7) fr by (simp add: dicomProbe_def readProbe_def and_then_def)
  then obtain p where p: "dicomProbe env f = Inr p" "probe_numberOfFrames p = 1" by blast
  then have "probe_sopClassUID p \<notin> set videoSopClasses \<longrightarrow>
                 getDetailedFileType env f = Inr DicomImage"
    using assms(1) by (simp add: getDetailedFileType_dicom)
  with p show ?thesis by blast
qed

theorem falsy_frame_count_defaults_witness:
  "isDicomFile (mkFile ''file.dcm'' [] 4096) \<and>
   metaData_multiframeModule zeroFrames ''dicomfile:0'' = Inr (Some \<lparr>numberOfFrames = Some 0\<rparr>) \<and>
   metaData_numberOfFrames zeroFrames ''dicomfile:0'' = Inr (Some 0) \<and>
   getDetailedFileType zeroFrames (mkFile ''file.dcm'' [] 4096) = Inr DicomImage"
proof -
  have d: "isDicomFile (mkFile ''file.dcm'' [] 4096)"
    by (simp add: isDicomFile_def mkFile_def str_defs)
  have i: "import_VideoPlayer zeroFrames = Inr ()"
    and r: "fileToImageId zeroFrames (mkFile ''file.dcm'' [] 4096) = Inr ''dicomfile:0''"
    and s: "metaData_sopCommonModule zeroFrames ''dicomfile:0'' = Inr None"
    and m: "metaData_multiframeModule zeroFrames ''dicomfile:0'' =
              Inr (Some \<lparr>numberOfFrames = Some 0\<rparr>)"
    and n: "metaData_numberOfFrames zeroFrames ''dicomfile:0'' = Inr (Some 0)"
    by (simp_all add: zeroFrames_def noMetadata_def fileToImageId_def)
  have "\<exists>p. dicomProbe zeroFrames (mkFile ''file.dcm'' [] 4096) = Inr p \<and>
          probe_numberOfFrames p = 1 \<and>
          (probe_sopClassUID p \<notin> set videoSopClasses \<longrightarrow>
             getDetailedFileType zeroFrames (mkFile ''file.dcm'' [] 4096) = Inr DicomImage)"
    by (rule falsy_frame_count_defaults [OF d i r s m _ n]) simp_all
  then have "getDetailedFileType zeroFrames (mkFile ''file.dcm'' [] 4096) = Inr DicomImage"
    by (simp add: dicomProbe_zeroFrames videoSopClasses_def)
  with d m n show ?thesis by simp
qed

text \<open>
  C8. The tag depends on the file only through its name and its declared MIME type, and on
  the collaborator only through the outcome of the probe: two calls that agree on these
  return the same tag, also when the byte counts, the locators or the collaborator's
  other answers differ.
\<close>

theorem classification_deterministic:
  assumes "name f1 = name f2" and "type_f f1 = type_f f2"
    and "dicomProbe env1 f1 = dicomProbe env2 f2"
  shows "getDetailedFileType env1 f1 = getDetailedFileType env2 f2"
proof -
  have d: "isDicomFile f1 = isDicomFile f2" and v: "isVideoFile f1 = isVideoFile f2"
    and i: "isImageFile f1 = isImageFile f2"
    using assms(1,2) by (simp_all add: isDicomFile_def isVideoFile_def isImageFile_def)
  show ?thesis
  proof (cases "isDicomFile f1")
    case True
    then show ?thesis using d assms(3) by (simp add: getDetailedFileType_dicom)
  next
    case False
    then show ?thesis using d v i by (simp add: getDetailedFileType_not_dicom)
  qed
qed

theorem classification_deterministic_witness:
  "dicomProbe noMetadata (mkFile ''a.dcm'' [] 1) = dicomProbe zeroFrames (mkFile ''a.dcm'' [] 2) \<and>
   getDetailedFileType noMetadata (mkFile ''a.dcm'' [] 1) =
   getDetailedFileType zeroFrames (mkFile ''a.dcm'' [] 2)"
proof -
  have p: "dicomProbe noMetadata (mkFile ''a.dcm'' [] 1) =
           dicomProbe zeroFrames (mkFile ''a.dcm'' [] 2)"
    by (simp add: dicomProbe_noMetadata dicomProbe_zeroFrames)
  have n: "name (mkFile ''a.dcm'' [] 1) = name (mkFile ''a.dcm'' [] 2)"
    and t: "type_f (mkFile ''a.dcm'' [] 1) = type_f (mkFile ''a.dcm'' [] 2)"
    by (simp_all add: mkFile_def)
  from classification_deterministic [OF n t p] p show ?thesis by (rule conjI [rotated])
qed

section \<open>Validation\<close>

text \<open>
  C3. \<open>validateFile\<close> applies the size rule and then the emptiness rule, each on its own:
  above 209,715,200 bytes the error list holds the too-large message with the
  human-readable size, at 0 bytes it holds the empty-file message, and in between
  (209,715,200 included) the result is valid with no error. The result is valid exactly
  when the list is empty, and the list never has more than one element.
\<close>

theorem validateFile_rules:
  "errors (validateFile f) =
     (if size_f f > 209715200 then [''File too large ('' @ getFileSize f @ '' > 200MB)''] else []) @
     (if size_f f = 0 then [''File is empty''] else [])
   \<and> isValid (validateFile f) = (errors (validateFile f) = [])
   \<and> (0 < size_f f \<and> size_f f \<le> 209715200 \<longrightarrow>
        validateFile f = \<lparr>isValid = True, errors = []\<rparr>)
   \<and> length (errors (validateFile f)) \<le> 1"
  by (simp add: validateFile_def Let_def)

theorem validateFile_rules_witness:
  "validateFile (mkFile ''scan.dcm'' [] 209715200) = \<lparr>isValid = True, errors = []\<rparr> \<and>
   errors (validateFile (mkFile ''scan.dcm'' [] 209715201)) =
     [''File too large (200.0 MB > 200MB)''] \<and>
   errors (validateFile (mkFile ''scan.dcm'' [] 0)) = [''File is empty'']"
proof -
  have "getFileSize (mkFile ''scan.dcm'' [] 209715201) = ''200.0 MB''"
    by (simp add: getFileSize_def toFixed1_def mkFile_def toString_nat.simps)
  moreover have "size_f (mkFile ''scan.dcm'' [] 209715201) = 209715201"
    "size_f (mkFile ''scan.dcm'' [] 209715200) = 209715200"
    "size_f (mkFile ''scan.dcm'' [] 0) = 0"
    by (simp_all add: mkFile_def)
  ultimately show ?thesis
    using validateFile_rules [of "mkFile ''scan.dcm'' [] 209715200"]
      validateFile_rules [of "mkFile ''scan.dcm'' [] 209715201"]
      validateFile_rules [of "mkFile ''scan.dcm'' [] 0"]
    by simp
qed

section \<open>Decision order and detection\<close>

text \<open>
  C4. The classifier tries DICOM detection, then video detection, then image detection,
  and the first match decides: a DICOM candidate is \<open>dicom-video\<close> or \<open>dicom-image\<close>
  whatever else matches; video and image detection are for non-DICOM files, and there a
  file meeting the video criterion (also when it meets the image criterion too) is
  \<open>regular-video\<close>, one meeting only the image criterion is \<open>regular-image\<close>, and one
  meeting none is \<open>unknown\<close>. \<open>video.mp4\<close> with MIME \<open>video/mp4\<close> is \<open>regular-video\<close>,
  \<open>scan.png\<close> with empty MIME is \<open>regular-image\<close>, \<open>data.xyz\<close> with empty MIME is
  \<open>unknown\<close>.
\<close>

theorem decision_order:
  "(isDicomFile f \<longrightarrow> getDetailedFileType env f \<in> {Inr DicomVideo, Inr DicomImage}) \<and>
   (\<not> isDicomFile f \<and> isVideoFile f \<longrightarrow> getDetailedFileType env f = Inr RegularVideo) \<and>
   (\<not> isDicomFile f \<and> \<not> isVideoFile f \<and> isImageFile f \<longrightarrow>
      getDetailedFileType env f = Inr RegularImage) \<and>
   (\<not> isDicomFile f \<and> \<not> isVideoFile f \<and> \<not> isImageFile f \<longrightarrow>
      getDetailedFileType env f = Inr Unknown) \<and>
   getDetailedFileType env (mkFile ''video.mp4'' ''video/mp4'' n) = Inr RegularVideo \<and>
   getDetailedFileType env (mkFile ''scan.png'' [] n) = Inr RegularImage \<and>
   getDetailedFileType env (mkFile ''data.xyz'' [] n) = Inr Unknown"
proof -
  have "isDicomFile f \<longrightarrow> getDetailedFileType env f \<in> {Inr DicomVideo, Inr DicomImage}"
    by (simp add: getDetailedFileType_dicom split: sum.splits)
  moreover have "getDetailedFileType env (mkFile ''video.mp4'' ''video/mp4'' n) = Inr RegularVideo"
    by (simp add: getDetailedFileType_def det_defs str_defs)
  moreover have "getDetailedFileType env (mkFile ''scan.png'' [] n) = Inr RegularImage"
    by (simp add: getDetailedFileType_def det_defs str_defs)
  moreover have "getDetailedFileType env (mkFile ''data.xyz'' [] n) = Inr Unknown"
    by (simp add: getDetailedFileType_def det_defs str_defs)
  ultimately show ?thesis by (simp add: getDetailedFileType_not_dicom)
qed

theorem decision_order_witness:
  "(isVideoFile (mkFile ''clip.png'' ''video/mp4'' 4096) \<and>
    isImageFile (mkFile ''clip.png'' ''video/mp4'' 4096) \<and>
    getDetailedFileType noMetadata (mkFile ''clip.png'' ''video/mp4'' 4096) = Inr RegularVideo) \<and>
   (isDicomFile (mkFile ''clip.dcm'' ''video/mp4'' 4096) \<and>
    isVideoFile (mkFile ''clip.dcm'' ''video/mp4'' 4096) \<and>
    getDetailedFileType noMetadata (mkFile ''clip.dcm'' ''video/mp4'' 4096)
      \<in> {Inr DicomVideo, Inr DicomImage}) \<and>
   (isImageFile (mkFile ''scan.png'' [] 4096) \<and>
    getDetailedFileType noMetadata (mkFile ''scan.png'' [] 4096) = Inr RegularImage) \<and>
   getDetailedFileType noMetadata (mkFile ''data.xyz'' [] 4096) = Inr Unknown"
proof -
  have a: "\<not> isDicomFile (mkFile ''clip.png'' ''video/mp4'' 4096)"
    "isVideoFile (mkFile ''clip.png'' ''video/mp4'' 4096)"
    "isImageFile (mkFile ''clip.png'' ''video/mp4'' 4096)"
    by (simp_all add: det_defs str_defs)
  have b: "isDicomFile (mkFile ''clip.dcm'' ''video/mp4'' 4096)"
    "isVideoFile (mkFile ''clip.dcm'' ''video/mp4'' 4096)"
    by (simp_all add: det_defs str_defs)
  have c: "\<not> isDicomFile (mkFile ''scan.png'' [] 4096)"
    "\<not> isVideoFile (mkFile ''scan.png'' [] 4096)"
    "isImageFile (mkFile ''scan.png'' [] 4096)"
    by (simp_all add: det_defs str_defs)
  have d: "\<not> isDicomFile (mkFile ''data.xyz'' [] 4096)"
    "\<not> isVideoFile (mkFile ''data.xyz'' [] 4096)"
    "\<not> isImageFile (mkFile ''data.xyz'' [] 4096)"
    by (simp_all add: det_defs str_defs)
  show ?thesis
    using a b c d
      decision_order [of "mkFile ''clip.png'' ''video/mp4'' 4096" noMetadata]
      decision_order [of "mkFile ''clip.dcm'' ''video/mp4'' 4096" noMetadata]
      decision_order [of "mkFile ''scan.png'' [] 4096" noMetadata]
      decision_order [of "mkFile ''data.xyz'' [] 4096" noMetadata]
    by blast
qed

text \<open>
  C5. A file is a DICOM candidate if and only if its name ends with a point followed by
  the letters d, c, m, each in upper or lower case, or its declared MIME type equals
  \<open>application/dicom\<close>. The names \<open>FILE.DCM\<close>, \<open>file.dcm\<close> and \<open>File.Dcm\<close> make a
  candidate whatever the MIME type.
\<close>

theorem isDicomFile_iff:
  "(isDicomFile f \<longleftrightarrow>
      (\<exists>p c1 c2 c3. name f = p @ [CHR ''.'', c1, c2, c3] \<and> c1 \<in> {CHR ''d'', CHR ''D''} \<and>
         c2 \<in> {CHR ''c'', CHR ''C''} \<and> c3 \<in> {CHR ''m'', CHR ''M''})
      \<or> type_f f = ''application/dicom'') \<and>
   isDicomFile (mkFile ''FILE.DCM'' t n) \<and>
   isDicomFile (mkFile ''file.dcm'' t n) \<and>
   isDicomFile (mkFile ''File.Dcm'' t n)"
proof -
  have "isDicomFile f \<longleftrightarrow>
      (\<exists>p c1 c2 c3. name f = p @ [CHR ''.'', c1, c2, c3] \<and> c1 \<in> {CHR ''d'', CHR ''D''} \<and>
         c2 \<in> {CHR ''c'', CHR ''C''} \<and> c3 \<in> {CHR ''m'', CHR ''M''})
      \<or> type_f f = ''application/dicom''"
    unfolding isDicomFile_def endsWith_dcm ..
  moreover have "isDicomFile (mkFile ''FILE.DCM'' t n)" "isDicomFile (mkFile ''file.dcm'' t n)"
    "isDicomFile (mkFile ''File.Dcm'' t n)"
    by (simp_all add: isDicomFile_def mkFile_def str_defs)
  ultimately show ?thesis by blast
qed

theorem isDicomFile_iff_witness:
  "isDicomFile (mkFile ''study.bin'' ''application/dicom'' 4096) \<and>
   isDicomFile (mkFile ''Study.DcM'' ''text/plain'' 4096)"
proof -
  have "name (mkFile ''Study.DcM'' ''text/plain'' 4096) =
          ''Study'' @ [CHR ''.'', CHR ''D'', CHR ''c'', CHR ''M'']"
    by (simp add: mkFile_def)
  then have "\<exists>p c1 c2 c3. name (mkFile ''Study.DcM'' ''text/plain'' 4096) = p @ [CHR ''.'', c1, c2, c3] \<and>
       c1 \<in> {CHR ''d'', CHR ''D''} \<and> c2 \<in> {CHR ''c'', CHR ''C''} \<and> c3 \<in> {CHR ''m'', CHR ''M''}"
    by blast
  moreover have "type_f (mkFile ''study.bin'' ''application/dicom'' 4096) = ''application/dicom''"
    by (simp add: mkFile_def)
  ultimately show ?thesis
    using isDicomFile_iff [of "mkFile ''study.bin'' ''application/dicom'' 4096"]
      isDicomFile_iff [of "mkFile ''Study.DcM'' ''text/plain'' 4096"]
    by blast
qed

lemma sublist_toLowerCase: "sublist x d \<Longrightarrow> sublist (toLowerCase x) (toLowerCase d)"
  unfolding toLowerCase_def by (rule map_mono_sublist)

lemma isVideoFile_sublist:
  "isVideoFile f \<longleftrightarrow>
      (\<exists>t \<in> {''video/mp4'', ''video/avi'', ''video/quicktime'', ''video/x-ms-wmv''}.
          sublist t (type_f f)) \<or>
      (\<exists>e \<in> {''.mp4'', ''.avi'', ''.mov'', ''.wmv'', ''.flv'', ''.webm'', ''.mpeg'', ''.mpg''}.
          suffix e (toLowerCase (name f)))"
  by (simp add: isVideoFile_def videoMimeTypes_def videoExtensions_def endsWith_suffix
        includes_sublist)

lemma isImageFile_sublist:
  "isImageFile f \<longleftrightarrow>
      (\<exists>t \<in> {''image/jpeg'', ''image/png'', ''image/gif'', ''image/bmp'', ''image/tiff''}.
          sublist t (type_f f)) \<or>
      (\<exists>e \<in> {''.jpg'', ''.jpeg'', ''.png'', ''.gif'', ''.bmp'', ''.tiff''}.
          suffix e (toLowerCase (name f)))"
  by (simp add: isImageFile_def imageMimeTypes_def imageExtensions_def endsWith_suffix
        includes_sublist)

text \<open>
  C6. The claim that no MIME comparison requires whole-string equality fails:
  \<open>application/dicom+json\<close> contains the DICOM target string and is not a DICOM
  candidate; with a name that has no known extension it classifies as \<open>unknown\<close>.
\<close>

theorem mime_substring_counterexample:
  "includes_str ''application/dicom+json'' ''application/dicom'' \<and>
   \<not> isDicomFile (mkFile ''study'' ''application/dicom+json'' 4096) \<and>
   getDetailedFileType noMetadata (mkFile ''study'' ''application/dicom+json'' 4096) = Inr Unknown"
  by (simp add: getDetailedFileType_def det_defs str_defs)

text \<open>
  C6, as amended. Extension checks are suffix tests on the lower-cased name. The video and
  the image MIME checks are substring tests: the handler looks for the listed strings
  anywhere in \<open>file.type\<close>, which a \<open>File\<close> exposes as the declared type in lower
  case, so a declared type containing a video or image target string anywhere, in any
  letter case, triggers the match. The DICOM MIME check alone is whole-string equality
  with \<open>application/dicom\<close>.
\<close>

theorem detection_checks:
  "(isVideoFile f \<longleftrightarrow>
      (\<exists>t \<in> {''video/mp4'', ''video/avi'', ''video/quicktime'', ''video/x-ms-wmv''}.
          sublist t (type_f f)) \<or>
      (\<exists>e \<in> {''.mp4'', ''.avi'', ''.mov'', ''.wmv'', ''.flv'', ''.webm'', ''.mpeg'', ''.mpg''}.
          suffix e (toLowerCase (name f)))) \<and>
   (isImageFile f \<longleftrightarrow>
      (\<exists>t \<in> {''image/jpeg'', ''image/png'', ''image/gif'', ''image/bmp'', ''image/tiff''}.
          sublist t (type_f f)) \<or>
      (\<exists>e \<in> {''.jpg'', ''.jpeg'', ''.png'', ''.gif'', ''.bmp'', ''.tiff''}.
          suffix e (toLowerCase (name f)))) \<and>
   (isDicomFile f \<longleftrightarrow>
      type_f f = ''application/dicom'' \<or> suffix ''.dcm'' (toLowerCase (name f))) \<and>
   (type_f f = toLowerCase declared \<and> sublist x declared \<and>
    toLowerCase x \<in> {''video/mp4'', ''video/avi'', ''video/quicktime'', ''video/x-ms-wmv''}
      \<longrightarrow> isVideoFile f) \<and>
   (type_f f = toLowerCase declared \<and> sublist x declared \<and>
    toLowerCase x \<in> {''image/jpeg'', ''image/png'', ''image/gif'', ''image/bmp'', ''image/tiff''}
      \<longrightarrow> isImageFile f)"
proof -
  have d: "isDicomFile f \<longleftrightarrow>
      type_f f = ''application/dicom'' \<or> suffix ''.dcm'' (toLowerCase (name f))"
    by (auto simp: isDicomFile_def endsWith_suffix)
  have v: "type_f f = toLowerCase declared \<and> sublist x declared \<and>
    toLowerCase x \<in> {''video/mp4'', ''video/avi'', ''video/quicktime'', ''video/x-ms-wmv''}
      \<longrightarrow> isVideoFile f"
  proof (intro impI, elim conjE)
    assume t: "type_f f = toLowerCase declared" and s: "sublist x declared"
      and m: "toLowerCase x \<in> {''video/mp4'', ''video/avi'', ''video/quicktime'', ''video/x-ms-wmv''}"
    from s t have "sublist (toLowerCase x) (type_f f)" by (simp add: sublist_toLowerCase)
    with m show "isVideoFile f" unfolding isVideoFile_sublist by blast
  qed
  have i: "type_f f = toLowerCase declared \<and> sublist x declared \<and>
    toLowerCase x \<in> {''image/jpeg'', ''image/png'', ''image/gif'', ''image/bmp'', ''image/tiff''}
      \<longrightarrow> isImageFile f"
  proof (intro impI, elim conjE)
    assume t: "type_f f = toLowerCase declared" and s: "sublist x declared"
      and m: "toLowerCase x \<in> {''image/jpeg'', ''image/png'', ''image/gif'', ''image/bmp'', ''image/tiff''}"
    from s t have "sublist (toLowerCase x) (type_f f)" by (simp add: sublist_toLowerCase)
    with m show "isImageFile f" unfolding isImageFile_sublist by blast
  qed
  from d v i isVideoFile_sublist [of f] isImageFile_sublist [of f] show ?thesis by blast
qed

theorem detection_checks_witness:
  "sublist ''Video/MP4'' ''Application/X-Video/MP4; codecs=avc1'' \<and>
   toLowerCase ''Application/X-Video/MP4; codecs=avc1'' = ''application/x-video/mp4; codecs=avc1'' \<and>
   isVideoFile (mkFile ''clip'' ''application/x-video/mp4; codecs=avc1'' 4096) \<and>
   sublist ''image/PNG'' ''image/PNG'' \<and>
   isImageFile (mkFile ''scan'' ''image/png'' 4096) \<and>
   suffix ''.tiff'' (toLowerCase ''Slide.TIFF'') \<and>
   isImageFile (mkFile ''Slide.TIFF'' [] 4096)"
proof -
  have s: "sublist ''Video/MP4'' ''Application/X-Video/MP4; codecs=avc1''"
    unfolding includes_sublist [symmetric] by simp
  have l: "toLowerCase ''Application/X-Video/MP4; codecs=avc1'' =
             ''application/x-video/mp4; codecs=avc1''"
    by (simp add: str_defs)
  have t: "type_f (mkFile ''clip'' ''application/x-video/mp4; codecs=avc1'' 4096) =
             toLowerCase ''Application/X-Video/MP4; codecs=avc1''"
    by (simp add: mkFile_def str_defs)
  have m: "toLowerCase ''Video/MP4'' \<in>
             {''video/mp4'', ''video/avi'', ''video/quicktime'', ''video/x-ms-wmv''}"
    by (simp add: str_defs)
  have v: "isVideoFile (mkFile ''clip'' ''application/x-video/mp4; codecs=avc1'' 4096)"
    using detection_checks [of "mkFile ''clip'' ''application/x-video/mp4; codecs=avc1'' 4096"
        "''Application/X-Video/MP4; codecs=avc1''" "''Video/MP4''"] s t m
    by blast
  have s2: "sublist ''image/PNG'' ''image/PNG''" by simp
  have t2: "type_f (mkFile ''scan'' ''image/png'' 4096) = toLowerCase ''image/PNG''"
    by (simp add: mkFile_def str_defs)
  have m2: "toLowerCase ''image/PNG'' \<in>
             {''image/jpeg'', ''image/png'', ''image/gif'', ''image/bmp'', ''image/tiff''}"
    by (simp add: str_defs)
  have i: "isImageFile (mkFile ''scan'' ''image/png'' 4096)"
    using detection_checks [of "mkFile ''scan'' ''image/png'' 4096" "''image/PNG''" "''image/PNG''"]
      s2 t2 m2
    by blast
  have e: "suffix ''.tiff'' (toLowerCase ''Slide.TIFF'')"
    unfolding endsWith_suffix [symmetric] by (simp add: str_defs)
  have n: "name (mkFile ''Slide.TIFF'' [] 4096) = ''Slide.TIFF''"
    by (simp add: mkFile_def)
  have i2: "isImageFile (mkFile ''Slide.TIFF'' [] 4096)"
    using detection_checks [of "mkFile ''Slide.TIFF'' [] 4096"] e n by simp
  from s l v s2 i e i2 show ?thesis by blast
qed

section \<open>Classification results and the selected file\<close>

lemmas run_defs = run_def step_def handleDrop_def handleUpload_def clearFile_def afterAwait_def
  validateFile_def initialState_def mkFile_def Let_def

lemma step_typeMatchesFile:
  assumes "typeMatchesFile env s"
  shows "typeMatchesFile env (step env s ev)"
proof (cases ev)
  case (Upload u)
  then show ?thesis
    by (simp add: step_def handleUpload_def typeMatchesFile_def Let_def split: option.splits)
next
  case (Drop d)
  then show ?thesis using assms
    by (simp add: step_def handleDrop_def typeMatchesFile_def Let_def split: option.splits)
next
  case Clear
  then show ?thesis by (simp add: step_def clearFile_def typeMatchesFile_def)
next
  case (Settle i)
  obtain t where "getDetailedFileType env (pending s ! i) = Inr t"
    using getDetailedFileType_total by blast
  with Settle assms show ?thesis
    by (simp add: step_def afterAwait_def typeMatchesFile_def)
qed

lemma run_typeMatchesFile:
  "typeMatchesFile env s \<Longrightarrow> typeMatchesFile env (run env s evs)"
  unfolding run_def
  by (induction evs arbitrary: s) (simp_all add: step_typeMatchesFile)

text \<open>
  C7. The claim that a stale result is discarded fails. A DICOM file is dropped and its
  probe stays pending; a video is dropped, classified and displayed; then the first
  probe settles. The video was the selected file at that time, and yet the displayed type
  becomes the tag of the DICOM file (which also replaces the video as the selected file).
\<close>

theorem stale_result_counterexample:
  "file_st (run noMetadata initialState
      [Drop (Some (mkFile ''a.dcm'' [] 4096)), Drop (Some (mkFile ''b.mp4'' ''video/mp4'' 4096)),
       Settle 1]) = Some (mkFile ''b.mp4'' ''video/mp4'' 4096) \<and>
   fileType (run noMetadata initialState
      [Drop (Some (mkFile ''a.dcm'' [] 4096)), Drop (Some (mkFile ''b.mp4'' ''video/mp4'' 4096)),
       Settle 1]) = RegularVideo \<and>
   pending (run noMetadata initialState
      [Drop (Some (mkFile ''a.dcm'' [] 4096)), Drop (Some (mkFile ''b.mp4'' ''video/mp4'' 4096)),
       Settle 1]) = [mkFile ''a.dcm'' [] 4096] \<and>
   fileType (run noMetadata initialState
      [Drop (Some (mkFile ''a.dcm'' [] 4096)), Drop (Some (mkFile ''b.mp4'' ''video/mp4'' 4096)),
       Settle 1, Settle 0]) = DicomImage \<and>
   file_st (run noMetadata initialState
      [Drop (Some (mkFile ''a.dcm'' [] 4096)), Drop (Some (mkFile ''b.mp4'' ''video/mp4'' 4096)),
       Settle 1, Settle 0]) = Some (mkFile ''a.dcm'' [] 4096)"
  by (simp add: run_defs getDetailedFileType_def isDicomFile_def isVideoFile_def videoMimeTypes_def
       str_defs noMetadata_def probe_defs videoSopClasses_def)

text \<open>
  C7, as amended. When the classification requested for a file settles, the handler sets
  the displayed file type to the resolved tag and the selected file to that file,
  whatever is selected at that time: the result is not discarded. The two are set
  together, so in every reachable state the displayed file type is the tag of the
  selected file, and \<open>unknown\<close> when no file is selected.
\<close>

theorem settle_sets_type_and_file:
  "typeMatchesFile env (run env initialState evs) \<and>
   (i < length (pending s) \<longrightarrow>
      file_st (step env s (Settle i)) = Some (pending s ! i) \<and>
      getDetailedFileType env (pending s ! i) = Inr (fileType (step env s (Settle i))))"
proof -
  have "typeMatchesFile env initialState"
    by (simp add: typeMatchesFile_def initialState_def)
  then have "typeMatchesFile env (run env initialState evs)" by (rule run_typeMatchesFile)
  moreover obtain t where "getDetailedFileType env (pending s ! i) = Inr t"
    using getDetailedFileType_total by blast
  ultimately show ?thesis by (simp add: step_def afterAwait_def)
qed

theorem settle_sets_type_and_file_witness:
  "pending (run noMetadata initialState [Upload (Some (mkFile ''a.dcm'' [] 4096)), Clear]) =
     [mkFile ''a.dcm'' [] 4096] \<and>
   file_st (run noMetadata initialState [Upload (Some (mkFile ''a.dcm'' [] 4096)), Clear]) = None \<and>
   file_st (step noMetadata
      (run noMetadata initialState [Upload (Some (mkFile ''a.dcm'' [] 4096)), Clear]) (Settle 0)) =
     Some (mkFile ''a.dcm'' [] 4096) \<and>
   getDetailedFileType noMetadata (mkFile ''a.dcm'' [] 4096) =
     Inr (fileType (step noMetadata
       (run noMetadata initialState [Upload (Some (mkFile ''a.dcm'' [] 4096)), Clear]) (Settle 0)))"
proof -
  have p: "pending (run noMetadata initialState [Upload (Some (mkFile ''a.dcm'' [] 4096)), Clear]) =
     [mkFile ''a.dcm'' [] 4096]"
    and f: "file_st (run noMetadata initialState [Upload (Some (mkFile ''a.dcm'' [] 4096)), Clear]) =
     None"
    by (simp_all add: run_defs)
  from settle_sets_type_and_file [of noMetadata "[]" 0
      "run noMetadata initialState [Upload (Some (mkFile ''a.dcm'' [] 4096)), Clear]"] p f
  show ?thesis by simp
qed

end
